theory Spec2Isabelle
  imports Complex_Main
begin

section \<open>JavaScript values used by the front end\<close>

text \<open>
  The display helpers of \<^verbatim>\<open>frontend/src/utils/validation.ts\<close> read an array literal at a
  numeric index and fall back with \<^verbatim>\<open>||\<close>. Reading an array never raises in JavaScript:
  an index that is not one of \<^verbatim>\<open>0 .. length - 1\<close> yields \<^verbatim>\<open>undefined\<close>, modelled as
  \<open>None\<close>. The inputs considered are integers, so the index is an \<open>int\<close>.
\<close>

definition js_index :: "'a list \<Rightarrow> int \<Rightarrow> 'a option" where
  "js_index xs i = (if 0 \<le> i \<and> i < int (length xs) then Some (xs ! nat i) else None)"

text \<open>
  \<^verbatim>\<open>v || d\<close> on a string-or-undefined \<open>v\<close>: \<^verbatim>\<open>undefined\<close> and the empty string are falsy,
  every other string is truthy.
\<close>

definition js_or :: "string option \<Rightarrow> string \<Rightarrow> string" where
  "js_or v d = (case v of None \<Rightarrow> d | Some s \<Rightarrow> if s = [] then d else s)"

text \<open>
  Text typed by the user is a JavaScript string: a sequence of UTF-16 code units, here
  natural numbers. \<^verbatim>\<open>String.prototype.trim\<close> removes the ECMAScript white space and line
  terminator code units from both ends.
\<close>

type_synonym js_string = "nat list"

definition js_whitespace :: "nat \<Rightarrow> bool" where
  "js_whitespace c \<longleftrightarrow>
     c \<in> set [9, 10, 11, 12, 13, 32, 160, 5760, 8232, 8233, 8239, 8287, 12288, 65279]
     \<or> (8192 \<le> c \<and> c \<le> 8202)"

definition trim :: "js_string \<Rightarrow> js_string" where
  "trim s = rev (dropWhile js_whitespace (rev (dropWhile js_whitespace s)))"

text \<open>
  \<^verbatim>\<open>xs.slice(0, -1)\<close>: the end index \<open>-1\<close> counts from the end and is clamped at 0, so
  the result is the list without its last element, and the empty list for the empty list.
\<close>

definition slice_0_neg1 :: "'a list \<Rightarrow> 'a list" where
  "slice_0_neg1 xs = take (length xs - 1) xs"

section \<open>Display formatting (validation.ts, lines 54--81)\<close>

definition formatChestPainType :: "int \<Rightarrow> string" where
  "formatChestPainType ty =
     (let types = [''Typical angina'', ''Atypical angina'', ''Non-anginal pain'', ''Asymptomatic'']
      in js_or (js_index types ty) ''Unknown'')"

definition formatECGResult :: "int \<Rightarrow> string" where
  "formatECGResult result =
     (let results = [''Normal'', ''ST-T wave abnormality'', ''Left ventricular hypertrophy'']
      in js_or (js_index results result) ''Unknown'')"

definition formatSTSlope :: "int \<Rightarrow> string" where
  "formatSTSlope slope =
     (let slopes = [''Upsloping'', ''Flat'', ''Downsloping'']
      in js_or (js_index slopes slope) ''Unknown'')"

definition formatThalassemia :: "int \<Rightarrow> string" where
  "formatThalassemia thal =
     (let types = ['''', ''Normal'', ''Fixed defect'', ''Reversible defect'']
      in js_or (js_index types thal) ''Unknown'')"

section \<open>Severity grouping (DOCUMENTATION_UPDATES_3CLASS.md, lines 153--159)\<close>

text \<open>
  The grouping function as the repository gives it:
  \<^verbatim>\<open>
  def group_severity(severity):
      if severity == 0:
          return 0  # No disease
      elif severity in [1, 2]:
          return 1  # Mild-Moderate
      else:  # severity in [3, 4]
          return 2  # Severe-Critical
  \<close>
  Python integers are unbounded, so the label is an \<open>int\<close>. The last branch is an
  \<^verbatim>\<open>else\<close>: it also takes every label outside 0..4.
\<close>

definition group_severity :: "int \<Rightarrow> int" where
  "group_severity severity =
     (if severity = 0 then 0
      else if severity \<in> set [1, 2] then 1
      else 2)"

text \<open>
  The grouping as the specification words it, the table
  \<open>{0\<rightarrow>0, 1\<rightarrow>1, 2\<rightarrow>1, 3\<rightarrow>2, 4\<rightarrow>2}\<close>, kept apart from the code's function so that
  the two can be compared.
\<close>

definition spec_grouping_table :: "(int \<times> int) list" where
  "spec_grouping_table = [(0, 0), (1, 1), (2, 1), (3, 2), (4, 2)]"

section \<open>The chat page (frontend/src/pages/Chat.tsx)\<close>

text \<open>
  A chat message as \<^verbatim>\<open>handleSendMessage\<close> builds it. The field \<^verbatim>\<open>id\<close> is named \<open>msg_id\<close>
  here, since \<open>id\<close> is the identity function of HOL.
\<close>

record ChatMessage =
  msg_id :: int
  role :: string
  content :: js_string
  created_at :: string
  references_prediction :: bool
  references_assessment_data :: bool

text \<open>
  The component's state: its four \<^verbatim>\<open>useState\<close> cells, and the browser alerts raised so
  far (\<^verbatim>\<open>alert(...)\<close>), kept as a log.
\<close>

record ChatState =
  messages :: "ChatMessage list"
  input :: js_string
  loading :: bool
  initialLoading :: bool
  alerts :: "string list"

text \<open>
  \<^verbatim>\<open>await api.sendChatMessage(sessionToken, userMessage)\<close> either resolves with the
  assistant's message or rejects (network failure, error status).
\<close>

datatype send_outcome = Resolved ChatMessage | Rejected

text \<open>The three functional updates that \<^verbatim>\<open>handleSendMessage\<close> passes to \<^verbatim>\<open>setMessages\<close>.\<close>

definition append_optimistic :: "ChatMessage \<Rightarrow> ChatMessage list \<Rightarrow> ChatMessage list" where
  "append_optimistic tempUserMessage prev = prev @ [tempUserMessage]"

definition replace_with_response ::
    "ChatMessage \<Rightarrow> ChatMessage \<Rightarrow> ChatMessage list \<Rightarrow> ChatMessage list" where
  "replace_with_response tempUserMessage response prev =
     slice_0_neg1 prev @ [tempUserMessage, response]"

definition remove_optimistic :: "ChatMessage list \<Rightarrow> ChatMessage list" where
  "remove_optimistic prev = slice_0_neg1 prev"

text \<open>
  \<^verbatim>\<open>handleSendMessage\<close> (lines 40--71), in the two parts that the \<^verbatim>\<open>await\<close> separates.
  \<open>now\<close> is \<^verbatim>\<open>Date.now()\<close> and \<open>stamp\<close> is \<^verbatim>\<open>new Date().toISOString()\<close>.

  \<open>send_begin\<close> is the part before the request: it clears the input, sets \<open>loading\<close>
  and appends the optimistic message; it returns that message with the new state.
\<close>

definition send_begin :: "int \<Rightarrow> string \<Rightarrow> ChatState \<Rightarrow> ChatMessage \<times> ChatState" where
  "send_begin now stamp s =
     (let userMessage = input s;
          s1 = s\<lparr>input := [], loading := True\<rparr>;
          tempUserMessage =
            \<lparr>msg_id = now, role = ''user'', content = userMessage, created_at = stamp,
             references_prediction = False, references_assessment_data = False\<rparr>
      in (tempUserMessage, s1\<lparr>messages := append_optimistic tempUserMessage (messages s1)\<rparr>))"

text \<open>
  \<open>send_settle\<close> is the part after the request: the \<^verbatim>\<open>try\<close> branch when it resolved,
  the \<^verbatim>\<open>catch\<close> branch (an alert, then the removal of the optimistic message) when it
  was rejected, and \<^verbatim>\<open>finally\<close> resetting \<open>loading\<close>. The updates are functional: they
  act on the message list as it is when they run.
\<close>

definition send_settle :: "ChatMessage \<Rightarrow> send_outcome \<Rightarrow> ChatState \<Rightarrow> ChatState" where
  "send_settle tempUserMessage outcome s =
     (let s' = (case outcome of
                  Resolved response \<Rightarrow>
                    s\<lparr>messages := replace_with_response tempUserMessage response (messages s)\<rparr>
                | Rejected \<Rightarrow>
                    s\<lparr>alerts := alerts s @ [''Failed to send message. Please try again.''],
                      messages := remove_optimistic (messages s)\<rparr>)
      in s'\<lparr>loading := False\<rparr>)"

text \<open>
  \<^verbatim>\<open>loadChatHistory\<close> (lines 25--34). The effect of lines 15--19 starts it whenever
  \<^verbatim>\<open>sessionToken\<close> changes; starting it changes no state. When its request settles it
  replaces the message list by the history (\<^verbatim>\<open>setMessages(history.messages)\<close>) if the
  request resolved, leaves the list alone if it was rejected, and sets \<open>initialLoading\<close>
  to false in \<^verbatim>\<open>finally\<close>. \<open>initialLoading\<close> is never set back to true, so after the
  first load the form stays usable while a later load is pending.
\<close>

datatype history_outcome = HistoryResolved "ChatMessage list" | HistoryRejected

definition loadChatHistory_settle :: "history_outcome \<Rightarrow> ChatState \<Rightarrow> ChatState" where
  "loadChatHistory_settle outcome s =
     (let s' = (case outcome of
                  HistoryResolved history_messages \<Rightarrow> s\<lparr>messages := history_messages\<rparr>
                | HistoryRejected \<Rightarrow> s)
      in s'\<lparr>initialLoading := False\<rparr>)"

text \<open>
  The whole handler. It returns at once, changing nothing, when the trimmed input is empty
  or a send is in flight. Otherwise it runs \<open>send_begin\<close>, awaits the request (line 60),
  and runs \<open>send_settle\<close> on the state as it is when the request settles. \<open>during\<close> lists,
  in order, the history loads of this component that settle while the request is pending;
  it is empty when none does. The input field is disabled while \<open>loading\<close> is set and a
  second send is stopped by the guard, so these are the only updates of the component's
  state that can land during the await.
\<close>

definition handleSendMessage ::
    "int \<Rightarrow> string \<Rightarrow> history_outcome list \<Rightarrow> send_outcome \<Rightarrow> ChatState \<Rightarrow> ChatState" where
  "handleSendMessage now stamp during outcome s =
     (if trim (input s) = [] \<or> loading s then s
      else (case send_begin now stamp s of
              (tempUserMessage, s2) \<Rightarrow>
                send_settle tempUserMessage outcome (fold loadChatHistory_settle during s2)))"

section \<open>The decision rule of the classifier\<close>

text \<open>
  Modelled from the spec: the code that picks the predicted class from the class
  probabilities (the prediction endpoint of \<^verbatim>\<open>src/api/app.py\<close>) is missing from the
  sources. The specification (section 4.5) says: the predicted class is the argmax, ties
  broken by preferring the lower (less severe) class index. That is a left-to-right scan
  over the classes that replaces the best index only on a strictly larger probability:
  \<open>best\<close> is the best index so far, \<open>bv\<close> its probability and \<open>i\<close> the index of the
  next entry. Probabilities are real numbers here.
\<close>

fun argmax_scan :: "nat \<Rightarrow> real \<Rightarrow> nat \<Rightarrow> real list \<Rightarrow> nat" where
  "argmax_scan best bv i [] = best"
| "argmax_scan best bv i (p # ps) =
     (if bv < p then argmax_scan i p (Suc i) ps else argmax_scan best bv (Suc i) ps)"

text \<open>
  Modelled from the spec: the predicted class of a list of class probabilities, class 0
  first. The empty list has no argmax.
\<close>

definition argmax :: "real list \<Rightarrow> nat option" where
  "argmax probs = (case probs of [] \<Rightarrow> None | p # ps \<Rightarrow> Some (argmax_scan 0 p 1 ps))"

section \<open>A concrete chat state\<close>

text \<open>
  One assistant message in the list, the text \<^verbatim>\<open>" hi?"\<close> typed into the input, no send
  in flight.
\<close>

definition example_state :: ChatState where
  "example_state =
     \<lparr>messages =
        [\<lparr>msg_id = 1, role = ''assistant'', content = [72, 105],
          created_at = ''2025-11-25T10:00:00.000Z'',
          references_prediction = False, references_assessment_data = False\<rparr>],
      input = [32, 104, 105, 63], loading = False, initialLoading = False, alerts = []\<rparr>"

text \<open>
  The history of another chat session: a question and its answer.
\<close>

definition example_history :: "ChatMessage list" where
  "example_history =
     [\<lparr>msg_id = 11, role = ''user'', content = [79, 75, 63],
       created_at = ''2025-11-24T09:00:00.000Z'',
       references_prediction = False, references_assessment_data = False\<rparr>,
      \<lparr>msg_id = 12, role = ''assistant'', content = [89, 101, 115],
       created_at = ''2025-11-24T09:00:05.000Z'',
       references_prediction = True, references_assessment_data = False\<rparr>]"

section \<open>Properties of the display formatting\<close>

lemma js_index_outside: "i < 0 \<or> int (length xs) \<le> i \<Longrightarrow> js_index xs i = None"
  by (auto simp: js_index_def)

lemma js_or_undefined: "js_or None d = d"
  by (simp add: js_or_def)

lemma formatChestPainType_table:
  "formatChestPainType 0 = ''Typical angina''"
  "formatChestPainType 1 = ''Atypical angina''"
  "formatChestPainType 2 = ''Non-anginal pain''"
  "formatChestPainType 3 = ''Asymptomatic''"
  by (simp_all add: formatChestPainType_def js_index_def js_or_def)

lemma formatECGResult_table:
  "formatECGResult 0 = ''Normal''"
  "formatECGResult 1 = ''ST-T wave abnormality''"
  "formatECGResult 2 = ''Left ventricular hypertrophy''"
  by (simp_all add: formatECGResult_def js_index_def js_or_def)

lemma formatSTSlope_table:
  "formatSTSlope 0 = ''Upsloping''"
  "formatSTSlope 1 = ''Flat''"
  "formatSTSlope 2 = ''Downsloping''"
  by (simp_all add: formatSTSlope_def js_index_def js_or_def)

lemma formatThalassemia_table:
  "formatThalassemia 1 = ''Normal''"
  "formatThalassemia 2 = ''Fixed defect''"
  "formatThalassemia 3 = ''Reversible defect''"
  by (simp_all add: formatThalassemia_def js_index_def js_or_def)

text \<open>
  Claim C9. The four display functions are total, and for every integer outside the
  function's value table (below 0, or at or beyond the table's length) each returns
  \<open>''Unknown''\<close>. \<open>formatThalassemia 0\<close> is \<open>''Unknown''\<close> as well: slot 0 of its table
  holds the empty string, which is falsy and falls through \<^verbatim>\<open>||\<close>. The functions have no
  error branch: neither the array read nor \<^verbatim>\<open>||\<close> can raise.
\<close>

theorem format_functions_unknown_outside_table:
  "(i < 0 \<or> 4 \<le> i \<longrightarrow> formatChestPainType i = ''Unknown'')
   \<and> (i < 0 \<or> 3 \<le> i \<longrightarrow> formatECGResult i = ''Unknown'')
   \<and> (i < 0 \<or> 3 \<le> i \<longrightarrow> formatSTSlope i = ''Unknown'')
   \<and> (i < 0 \<or> 4 \<le> i \<longrightarrow> formatThalassemia i = ''Unknown'')
   \<and> formatThalassemia 0 = ''Unknown''"
proof -
  have cp: "formatChestPainType i = ''Unknown''" if "i < 0 \<or> 4 \<le> i"
    using that by (simp add: formatChestPainType_def js_index_outside js_or_undefined)
  have ecg: "formatECGResult i = ''Unknown''" if "i < 0 \<or> 3 \<le> i"
    using that by (simp add: formatECGResult_def js_index_outside js_or_undefined)
  have slope: "formatSTSlope i = ''Unknown''" if "i < 0 \<or> 3 \<le> i"
    using that by (simp add: formatSTSlope_def js_index_outside js_or_undefined)
  have thal: "formatThalassemia i = ''Unknown''" if "i < 0 \<or> 4 \<le> i"
    using that by (simp add: formatThalassemia_def js_index_outside js_or_undefined)
  have thal0: "formatThalassemia 0 = ''Unknown''"
    by (simp add: formatThalassemia_def js_index_def js_or_def)
  from cp ecg slope thal thal0 show ?thesis by blast
qed

theorem format_functions_unknown_outside_table_witness:
  "formatChestPainType 7 = ''Unknown'' \<and> formatECGResult 7 = ''Unknown''
   \<and> formatSTSlope 7 = ''Unknown'' \<and> formatThalassemia 7 = ''Unknown''
   \<and> formatChestPainType (- 1) = ''Unknown'' \<and> formatThalassemia (- 1) = ''Unknown''"
  using format_functions_unknown_outside_table [of 7]
    format_functions_unknown_outside_table [of "- 1"]
  by simp

section \<open>Properties of the severity grouping\<close>

lemma group_severity_range: "group_severity s \<in> {0, 1, 2}"
  by (simp add: group_severity_def)

text \<open>
  Claim C1. The severity grouping is the fixed many-to-one map sending label 0 to class
  0, labels 1 and 2 to class 1 and labels 3 and 4 to class 2: on every original-scale
  label in \<open>{0, 1, 2, 3, 4}\<close> the code's \<open>group_severity\<close> returns the image of the label
  under the specification's table, and the five labels fall onto exactly the three
  classes 0, 1 and 2.
\<close>

theorem group_severity_fixed_map:
  "(\<forall>s \<in> {0, 1, 2, 3, 4}. map_of spec_grouping_table s = Some (group_severity s))
   \<and> group_severity 0 = 0 \<and> group_severity 1 = 1 \<and> group_severity 2 = 1
   \<and> group_severity 3 = 2 \<and> group_severity 4 = 2
   \<and> group_severity ` {0, 1, 2, 3, 4} = {0, 1, 2}"
  by (auto simp: group_severity_def spec_grouping_table_def)

theorem group_severity_fixed_map_witness:
  "map_of spec_grouping_table 4 = Some (group_severity 4) \<and> group_severity 4 = 2
   \<and> map_of spec_grouping_table 2 = Some (group_severity 2) \<and> group_severity 2 = 1"
  using group_severity_fixed_map by simp

section \<open>Properties of the chat page\<close>

lemma slice_0_neg1_snoc: "slice_0_neg1 (xs @ [x]) = xs"
  by (simp add: slice_0_neg1_def)

lemma slice_0_neg1_empty: "slice_0_neg1 [] = []"
  by (simp add: slice_0_neg1_def)

lemma trim_nonempty_input: "trim s \<noteq> [] \<Longrightarrow> s \<noteq> []"
  by (auto simp: trim_def)

lemma send_begin_messages:
  "messages (snd (send_begin now stamp s)) = messages s @ [fst (send_begin now stamp s)]"
  by (simp add: send_begin_def append_optimistic_def Let_def)

text \<open>
  The rejection's update removes the last element of the list as it is when the update
  runs, whatever that list is: the removal is by position, not by message.
\<close>

lemma send_settle_rejected_messages:
  "messages (send_settle tmp Rejected s) = slice_0_neg1 (messages s)"
  by (simp add: send_settle_def remove_optimistic_def Let_def)

lemma send_settle_resolved_messages:
  "messages (send_settle tmp (Resolved r) s) = slice_0_neg1 (messages s) @ [tmp, r]"
  by (simp add: send_settle_def replace_with_response_def Let_def)

lemma loadChatHistory_settle_messages:
  "messages (loadChatHistory_settle (HistoryResolved h) s) = h"
  "messages (loadChatHistory_settle HistoryRejected s) = messages s"
  by (simp_all add: loadChatHistory_settle_def Let_def)

lemma handleSendMessage_guard:
  "trim (input s) = [] \<or> loading s \<Longrightarrow> handleSendMessage now stamp during outcome s = s"
  by (simp add: handleSendMessage_def)

lemma handleSendMessage_sent:
  assumes "trim (input s) \<noteq> []" and "\<not> loading s"
  shows "handleSendMessage now stamp during outcome s
           = send_settle (fst (send_begin now stamp s)) outcome
               (fold loadChatHistory_settle during (snd (send_begin now stamp s)))"
  using assms by (simp add: handleSendMessage_def split: prod.splits)

text \<open>
  When no history load settles during the request, a failed send leaves the message list
  as it was before the attempt.
\<close>

lemma handleSendMessage_failure_undisturbed:
  "messages (handleSendMessage now stamp [] Rejected s) = messages s"
proof (cases "trim (input s) = [] \<or> loading s")
  case True
  then show ?thesis by (simp add: handleSendMessage_guard)
next
  case False
  then have "messages (handleSendMessage now stamp [] Rejected s)
      = slice_0_neg1 (messages (snd (send_begin now stamp s)))"
    by (simp add: handleSendMessage_sent send_settle_rejected_messages)
  also have "\<dots> = messages s"
    by (simp add: send_begin_messages slice_0_neg1_snoc)
  finally show ?thesis .
qed

lemma handleSendMessage_resolved_undisturbed:
  assumes "trim (input s) \<noteq> []" and "\<not> loading s"
  shows "messages (handleSendMessage now stamp [] (Resolved r) s)
           = messages s @ [fst (send_begin now stamp s), r]"
  using assms
  by (simp add: handleSendMessage_sent send_settle_resolved_messages send_begin_messages
      slice_0_neg1_snoc)

text \<open>
  When a history load resolves last among the updates landing during the request, a
  failed send leaves the history without its last message: the optimistic message is
  already gone with the replaced list, and the removal by position takes a message of
  the history instead.
\<close>

lemma handleSendMessage_failure_after_history:
  assumes "trim (input s) \<noteq> []" and "\<not> loading s"
  shows "messages (handleSendMessage now stamp (during @ [HistoryResolved h]) Rejected s)
           = slice_0_neg1 h"
  using assms
  by (simp add: handleSendMessage_sent send_settle_rejected_messages
      loadChatHistory_settle_messages)

text \<open>
  Claim C10 says that after a failed send the message list is exactly the list before the
  attempt. The code breaks this on a run it can really have: the page shows one message
  and the user has typed a question; the session token has changed, so a history load is
  pending; the user sends; the history load resolves with two messages while the request
  is pending; the request is rejected. The handler's \<^verbatim>\<open>catch\<close> then removes the last
  message of the history (its comment reads \<^verbatim>\<open>Remove optimistic message\<close>). The list
  that results holds the first history message only: it is neither the list before the
  attempt nor the loaded history.
\<close>

theorem handleSendMessage_failure_drops_history_message:
  "trim (input example_state) \<noteq> [] \<and> \<not> loading example_state
   \<and> messages (handleSendMessage 1764064800000 ''2025-11-25T10:00:00.000Z''
         [HistoryResolved example_history] Rejected example_state)
       = [\<lparr>msg_id = 11, role = ''user'', content = [79, 75, 63],
           created_at = ''2025-11-24T09:00:00.000Z'',
           references_prediction = False, references_assessment_data = False\<rparr>]
   \<and> messages (handleSendMessage 1764064800000 ''2025-11-25T10:00:00.000Z''
         [HistoryResolved example_history] Rejected example_state)
       \<noteq> messages example_state
   \<and> messages (handleSendMessage 1764064800000 ''2025-11-25T10:00:00.000Z''
         [HistoryResolved example_history] Rejected example_state)
       \<noteq> example_history"
proof -
  have g: "trim (input example_state) \<noteq> []" "\<not> loading example_state"
    by (simp_all add: example_state_def trim_def js_whitespace_def)
  have m: "messages (handleSendMessage 1764064800000 ''2025-11-25T10:00:00.000Z''
         [HistoryResolved example_history] Rejected example_state)
       = slice_0_neg1 example_history"
    using handleSendMessage_failure_after_history [OF g, of _ _ "[]"] by simp
  have h: "slice_0_neg1 example_history
       = [\<lparr>msg_id = 11, role = ''user'', content = [79, 75, 63],
           created_at = ''2025-11-24T09:00:00.000Z'',
           references_prediction = False, references_assessment_data = False\<rparr>]"
    by (simp add: example_history_def slice_0_neg1_def)
  have n1: "slice_0_neg1 example_history \<noteq> messages example_state"
    by (simp add: h example_state_def)
  have n2: "slice_0_neg1 example_history \<noteq> example_history"
    by (simp add: example_history_def slice_0_neg1_def)
  from g m h n1 n2 show ?thesis by simp
qed

section \<open>Properties of the decision rule\<close>

text \<open>
  The scan's invariant: \<open>pre\<close> is the part of the list already read, \<open>best\<close> is the least
  index of its largest entry \<open>bv\<close>.
\<close>

lemma argmax_scan_spec:
  assumes "length pre = i" "best < i" "pre ! best = bv"
    "\<forall>j<i. pre ! j \<le> bv" "\<forall>j<best. pre ! j < bv"
  shows "argmax_scan best bv i ps < length (pre @ ps)
    \<and> (\<forall>j<length (pre @ ps). (pre @ ps) ! j \<le> (pre @ ps) ! argmax_scan best bv i ps)
    \<and> (\<forall>j<argmax_scan best bv i ps. (pre @ ps) ! j < (pre @ ps) ! argmax_scan best bv i ps)"
  using assms
proof (induction ps arbitrary: pre i best bv)
  case Nil
  then show ?case by auto
next
  case (Cons p ps)
  show ?case
  proof (cases "bv < p")
    case True
    have a1: "length (pre @ [p]) = Suc i" using Cons.prems by simp
    have a2: "i < Suc i" by simp
    have a3: "(pre @ [p]) ! i = p" using Cons.prems by (simp add: nth_append)
    have a4: "\<forall>j<Suc i. (pre @ [p]) ! j \<le> p"
      using Cons.prems True
      by (auto simp: nth_append less_Suc_eq intro: less_imp_le order_le_less_trans)
    have a5: "\<forall>j<i. (pre @ [p]) ! j < p"
      using Cons.prems True by (auto simp: nth_append intro: order_le_less_trans)
    from Cons.IH [OF a1 a2 a3 a4 a5] True show ?thesis by simp
  next
    case False
    have a1: "length (pre @ [p]) = Suc i" using Cons.prems by simp
    have a2: "best < Suc i" using Cons.prems by simp
    have a3: "(pre @ [p]) ! best = bv" using Cons.prems by (simp add: nth_append)
    have a4: "\<forall>j<Suc i. (pre @ [p]) ! j \<le> bv"
      using Cons.prems False by (auto simp: nth_append less_Suc_eq)
    have a5: "\<forall>j<best. (pre @ [p]) ! j < bv"
      using Cons.prems by (auto simp: nth_append)
    from Cons.IH [OF a1 a2 a3 a4 a5] False show ?thesis by simp
  qed
qed

text \<open>
  Claim C3. For every class-probability list the classifier produces (it is not empty),
  the predicted class is an index of the maximum probability, and when two or more
  classes tie for the maximum the lowest class index is the one chosen.
\<close>

theorem argmax_prefers_lower_index:
  assumes "probs \<noteq> []"
  shows "\<exists>k. argmax probs = Some k \<and> k < length probs
           \<and> (\<forall>j<length probs. probs ! j \<le> probs ! k)
           \<and> (\<forall>j<length probs. probs ! j = probs ! k \<longrightarrow> k \<le> j)"
proof -
  from assms obtain p ps where probs: "probs = p # ps" by (cases probs) auto
  let ?k = "argmax_scan 0 p 1 ps"
  have "?k < length ([p] @ ps)
      \<and> (\<forall>j<length ([p] @ ps). ([p] @ ps) ! j \<le> ([p] @ ps) ! ?k)
      \<and> (\<forall>j<?k. ([p] @ ps) ! j < ([p] @ ps) ! ?k)"
    by (rule argmax_scan_spec) auto
  then have k: "?k < length probs" and mx: "\<forall>j<length probs. probs ! j \<le> probs ! ?k"
    and lo: "\<forall>j<?k. probs ! j < probs ! ?k"
    by (simp_all add: probs)
  have tie: "\<forall>j<length probs. probs ! j = probs ! ?k \<longrightarrow> ?k \<le> j"
  proof (intro allI impI)
    fix j assume "j < length probs" and eq: "probs ! j = probs ! ?k"
    show "?k \<le> j"
    proof (rule ccontr)
      assume "\<not> ?k \<le> j"
      then have "j < ?k" by simp
      with lo have "probs ! j < probs ! ?k" by blast
      with eq show False by simp
    qed
  qed
  have "argmax probs = Some ?k" by (simp add: argmax_def probs)
  with k mx tie show ?thesis by blast
qed

theorem argmax_prefers_lower_index_witness:
  "[1/2, 1/2, 0::real] \<noteq> [] \<and> argmax [1/2, 1/2, 0] = Some 0
   \<and> argmax [1/5, 2/5, 2/5] = Some 1 \<and> argmax [1/10, 1/5, 7/10] = Some 2"
proof -
  have a: "argmax [1/2, 1/2, 0] = Some 0" by (simp add: argmax_def)
  have b: "argmax [1/5, 2/5, 2/5] = Some 1" by (simp add: argmax_def)
  have c: "argmax [1/10, 1/5, 7/10] = Some 2" by (simp add: argmax_def)
  from argmax_prefers_lower_index [of "[1/2, 1/2, 0]"] a b c show ?thesis by simp
qed

end
